theory Spec2Isabelle
  imports Main "HOL-Library.Word"
begin

unbundle bit_operations_syntax

section \<open>tesc: console text stylization with ANSI escape codes\<close>

text \<open>
  The repository holds two versions of one header: \<^verbatim>\<open>tesc.h\<close> (version 0.1.0), where a
  manipulator object carries its own data and \<^verbatim>\<open>bright\<close> throws on a colour that is
  already bright, and \<^verbatim>\<open>tesc.hpp\<close> (version 2.0.1), where the manipulators write to
  static cells of their classes and \<^verbatim>\<open>bright\<close> returns such a colour unchanged.
  Definitions that embed \<^verbatim>\<open>tesc.h\<close> carry the suffix \<open>_h\<close>, those that embed
  \<^verbatim>\<open>tesc.hpp\<close> the suffix \<open>_hpp\<close>; what is literally the same in both files (the three
  enumerations and the style joiner) is defined once.
\<close>

subsection \<open>Output streams\<close>

text \<open>
  A \<^verbatim>\<open>std::ostream\<close> is modelled by the bytes written to it so far; \<^verbatim>\<open>os << s\<close> appends.
  The stream is taken in its default formatting state (decimal base, no width, no
  \<^verbatim>\<open>showpos\<close>, the classic locale), where \<^verbatim>\<open>os << int\<close> appends the decimal digits of
  the number, with a leading minus sign for a negative one.
\<close>

type_synonym ostream = string

definition digit_char :: "nat \<Rightarrow> char" where
  "digit_char d = ''0123456789'' ! d"

fun show_nat :: "nat \<Rightarrow> string" where
  "show_nat n =
     (if n < 10 then [digit_char n] else show_nat (n div 10) @ [digit_char (n mod 10)])"

declare show_nat.simps [simp del]

definition show_int :: "int \<Rightarrow> string" where
  "show_int i = (if i < 0 then CHR ''-'' # show_nat (nat (- i)) else show_nat (nat i))"

definition shl_str :: "ostream \<Rightarrow> string \<Rightarrow> ostream" where
  "shl_str os s = os @ s"

definition shl_int :: "ostream \<Rightarrow> int \<Rightarrow> ostream" where
  "shl_int os i = os @ show_int i"

text \<open>The string literal \<^verbatim>\<open>"\033["\<close>: the byte 27 (octal 33) and an opening bracket.\<close>

definition esc_bracket :: string where
  "esc_bracket = [CHR 0x1B, CHR ''['']"

subsection \<open>The enumerations (both files)\<close>

text \<open>
  \<^verbatim>\<open>enum class face : uint8_t\<close>, \<^verbatim>\<open>back\<close> and \<^verbatim>\<open>style\<close> are scoped enumerations over
  \<^verbatim>\<open>uint8_t\<close>. Their values are not only the enumerators: \<^verbatim>\<open>bright\<close> and the style
  joiner build values from arbitrary bytes. So each is a byte under a constructor of its
  own, which keeps the three types apart as the overloads of the source need.
\<close>

datatype face = Face (face_code: "8 word")
datatype "back" = Back (back_code: "8 word")
datatype style = Style (style_code: "8 word")

definition face_none :: face where "face_none = Face 0"
definition face_black :: face where "face_black = Face 30"
definition face_red :: face where "face_red = Face 31"
definition face_green :: face where "face_green = Face 32"
definition face_yellow :: face where "face_yellow = Face 33"
definition face_blue :: face where "face_blue = Face 34"
definition face_magenta :: face where "face_magenta = Face 35"
definition face_cyan :: face where "face_cyan = Face 36"
definition face_white :: face where "face_white = Face 37"

definition back_none :: "back" where "back_none = Back 0"
definition back_black :: "back" where "back_black = Back 40"
definition back_red :: "back" where "back_red = Back 41"
definition back_green :: "back" where "back_green = Back 42"
definition back_yellow :: "back" where "back_yellow = Back 43"
definition back_blue :: "back" where "back_blue = Back 44"
definition back_magenta :: "back" where "back_magenta = Back 45"
definition back_cyan :: "back" where "back_cyan = Back 46"
definition back_white :: "back" where "back_white = Back 47"

definition style_normal :: style where "style_normal = Style 0"
definition style_bold :: style where "style_bold = Style 1"
definition style_italic :: style where "style_italic = Style 2"
definition style_underline :: style where "style_underline = Style 4"

lemmas enum_defs =
  face_none_def face_black_def face_red_def face_green_def face_yellow_def
  face_blue_def face_magenta_def face_cyan_def face_white_def
  back_none_def back_black_def back_red_def back_green_def back_yellow_def
  back_blue_def back_magenta_def back_cyan_def back_white_def
  style_normal_def style_bold_def style_italic_def style_underline_def

text \<open>\<^verbatim>\<open>operator | (style, style)\<close>, the same in both files.\<close>

definition join_style :: "style \<Rightarrow> style \<Rightarrow> style" where
  "join_style f_1 f_2 = Style (style_code f_1 OR style_code f_2)"

subsection \<open>\<^verbatim>\<open>tesc.h\<close>: joiners and \<^verbatim>\<open>bright\<close>\<close>

text \<open>
  \<^verbatim>\<open>(uint16_t)clr_1 << 8 | (uint8_t)clr_2\<close> is computed on \<^verbatim>\<open>int\<close> after the integral
  promotions and converted to the return type \<^verbatim>\<open>uint16_t\<close>.
\<close>

definition join_face_back_h :: "face \<Rightarrow> back \<Rightarrow> 16 word" where
  "join_face_back_h clr_1 clr_2 =
     word_of_int (push_bit 8 (uint (ucast (face_code clr_1) :: 16 word)) OR uint (back_code clr_2))"

definition join_back_face_h :: "back \<Rightarrow> face \<Rightarrow> 16 word" where
  "join_back_face_h clr_1 clr_2 = join_face_back_h clr_2 clr_1"

datatype error = invalid_argument string

text \<open>
  \<^verbatim>\<open>face{ 60 + (uint8_t)clr }\<close>: the sum is an \<^verbatim>\<open>int\<close>, converted to the underlying
  \<^verbatim>\<open>uint8_t\<close>.
\<close>

definition bright_face_h :: "face \<Rightarrow> error + face" where
  "bright_face_h clr =
     (if face_code clr \<ge> 90 then Inl (invalid_argument ''Foreground color is already brighten'')
      else Inr (Face (word_of_int (60 + uint (face_code clr)))))"

definition bright_back_h :: "back \<Rightarrow> error + back" where
  "bright_back_h clr =
     (if back_code clr \<ge> 100 then Inl (invalid_argument ''Background color is already brighten'')
      else Inr (Back (word_of_int (60 + uint (back_code clr)))))"

subsection \<open>\<^verbatim>\<open>tesc.hpp\<close>: joiners and \<^verbatim>\<open>bright\<close>\<close>

definition join_face_back_hpp :: "face \<Rightarrow> back \<Rightarrow> face \<times> back" where
  "join_face_back_hpp clr_1 clr_2 = (clr_1, clr_2)"

definition join_back_face_hpp :: "back \<Rightarrow> face \<Rightarrow> face \<times> back" where
  "join_back_face_hpp clr_1 clr_2 = join_face_back_hpp clr_2 clr_1"

definition bright_face_hpp :: "face \<Rightarrow> face" where
  "bright_face_hpp clr =
     (if face_code clr \<ge> 90 then clr else Face (word_of_int (60 + uint (face_code clr))))"

definition bright_back_hpp :: "back \<Rightarrow> back" where
  "bright_back_hpp clr =
     (if back_code clr \<ge> 100 then clr else Back (word_of_int (60 + uint (back_code clr))))"

subsection \<open>\<^verbatim>\<open>tesc.h\<close>: the manipulators\<close>

definition reset_h :: "ostream \<Rightarrow> ostream" where
  "reset_h os = shl_str os (esc_bracket @ ''0m'')"

text \<open>
  The class \<^verbatim>\<open>color\<close> of \<^verbatim>\<open>tesc.h\<close> has one data member, \<^verbatim>\<open>uint16_t _color\<close>, and three
  converting constructors.
\<close>

record color_h =
  m_color :: "16 word"

definition color_code_h :: "16 word \<Rightarrow> color_h" where
  "color_code_h clr = \<lparr>m_color = clr\<rparr>"

definition color_face_h :: "face \<Rightarrow> color_h" where
  "color_face_h clr = \<lparr>m_color = ucast (face_code clr)\<rparr>"

definition color_back_h :: "back \<Rightarrow> color_h" where
  "color_back_h clr = \<lparr>m_color = ucast (back_code clr)\<rparr>"

text \<open>
  \<^verbatim>\<open>operator << (std::ostream&, color const&)\<close>. A C++ \<^verbatim>\<open>int\<close> used as a condition is
  true when it is not 0.
\<close>

definition color_shl_h :: "ostream \<Rightarrow> color_h \<Rightarrow> ostream" where
  "color_shl_h os decorator =
     (let clr_1 = uint (drop_bit 8 (m_color decorator));
          clr_2 = uint (ucast (m_color decorator) :: 8 word);
          os = shl_str os esc_bracket;
          os = (if clr_1 \<noteq> 0
                then (let os = shl_int os clr_1 in if clr_2 \<noteq> 0 then shl_str os '';'' else os)
                else os);
          os = (if clr_2 \<noteq> 0 then shl_int os clr_2 else os)
      in shl_str os ''m'')"

record font_h =
  m_style :: style

definition font_default_h :: font_h where
  "font_default_h = \<lparr>m_style = style_normal\<rparr>"

definition font_style_h :: "style \<Rightarrow> font_h" where
  "font_style_h st = \<lparr>m_style = st\<rparr>"

text \<open>\<^verbatim>\<open>font::_test\<close>: the byte \<^verbatim>\<open>_style & st\<close> converted to \<^verbatim>\<open>bool\<close>.\<close>

definition test_h :: "font_h \<Rightarrow> style \<Rightarrow> bool" where
  "test_h styler st = (style_code (m_style styler) AND style_code st \<noteq> 0)"

text \<open>\<^verbatim>\<open>std::swap(modif[i], modif[j])\<close> on the array \<^verbatim>\<open>int modif[3]\<close>.\<close>

definition swap :: "nat \<Rightarrow> nat \<Rightarrow> int list \<Rightarrow> int list" where
  "swap i j modif = modif[i := modif ! j, j := modif ! i]"

definition font_shl_h :: "ostream \<Rightarrow> font_h \<Rightarrow> ostream" where
  "font_shl_h os styler =
     (let modif = [if test_h styler style_bold then 1 else 22,
                   if test_h styler style_italic then 3 else 23,
                   if test_h styler style_underline then 4 else 24];
          modif = (if modif ! 0 > modif ! 1 then swap 0 1 modif else modif);
          modif = (if modif ! 1 > modif ! 2
                   then (let modif = swap 1 2 modif
                         in if modif ! 0 > modif ! 1 then swap 0 1 modif else modif)
                   else modif)
      in shl_str (shl_int (shl_str (shl_int (shl_str (shl_int (shl_str os esc_bracket)
           (modif ! 0)) '';'') (modif ! 1)) '';'') (modif ! 2)) ''m'')"

subsection \<open>\<^verbatim>\<open>tesc.hpp\<close>: the static cells and the manipulators\<close>

text \<open>
  \<^verbatim>\<open>color::_fg_color\<close>, \<^verbatim>\<open>color::_bg_color\<close> and \<^verbatim>\<open>font::_style\<close> are static data
  members: one cell each for the whole program. The classes have no other data, so a
  constructor is its effect on the cells, and every function of the file that is given
  the stream takes the cells as well and returns both.
\<close>

record statics =
  fg_color :: face
  bg_color :: "back"
  cur_style :: style

text \<open>The "Static fields initialization" at the end of the file.\<close>

definition initial :: statics where
  "initial = \<lparr>fg_color = face_none, bg_color = back_none, cur_style = style_normal\<rparr>"

definition color_pair_hpp :: "face \<times> back \<Rightarrow> statics \<Rightarrow> statics" where
  "color_pair_hpp clr s = s\<lparr>fg_color := fst clr, bg_color := snd clr\<rparr>"

definition color_face_hpp :: "face \<Rightarrow> statics \<Rightarrow> statics" where
  "color_face_hpp clr s = s\<lparr>fg_color := clr\<rparr>"

definition color_back_hpp :: "back \<Rightarrow> statics \<Rightarrow> statics" where
  "color_back_hpp clr s = s\<lparr>bg_color := clr\<rparr>"

definition get_face :: "statics \<Rightarrow> face" where
  "get_face s = fg_color s"

definition get_back :: "statics \<Rightarrow> back" where
  "get_back s = bg_color s"

definition color_shl_hpp :: "ostream \<Rightarrow> statics \<Rightarrow> ostream \<times> statics" where
  "color_shl_hpp os s =
     (let clr_1 = uint (face_code (get_face s));
          clr_2 = uint (back_code (get_back s));
          os = shl_str os esc_bracket;
          os = (if clr_1 \<noteq> 0
                then (let os = shl_int os clr_1 in if clr_2 \<noteq> 0 then shl_str os '';'' else os)
                else os);
          os = (if clr_2 \<noteq> 0 then shl_int os clr_2 else os)
      in (shl_str os ''m'', s))"

text \<open>\<^verbatim>\<open>font () = default\<close> has no body; \<^verbatim>\<open>font (style st)\<close> assigns the cell.\<close>

definition font_default_hpp :: "statics \<Rightarrow> statics" where
  "font_default_hpp s = s"

definition font_style_hpp :: "style \<Rightarrow> statics \<Rightarrow> statics" where
  "font_style_hpp st s = s\<lparr>cur_style := st\<rparr>"

definition get_style :: "statics \<Rightarrow> style" where
  "get_style s = cur_style s"

definition test_style :: "statics \<Rightarrow> style \<Rightarrow> bool" where
  "test_style s stl =
     (let st_1 = style_code (get_style s); st_2 = style_code stl
      in if st_1 = 0 \<and> st_2 = 0 then True else (st_1 AND st_2) = st_2)"

definition font_shl_hpp :: "ostream \<Rightarrow> statics \<Rightarrow> ostream \<times> statics" where
  "font_shl_hpp os s =
     (let modif = [if test_style s style_bold then 1 else 22,
                   if test_style s style_italic then 3 else 23,
                   if test_style s style_underline then 4 else 24];
          modif = (if modif ! 0 > modif ! 1 then swap 0 1 modif else modif);
          modif = (if modif ! 1 > modif ! 2
                   then (let modif = swap 1 2 modif
                         in if modif ! 0 > modif ! 1 then swap 0 1 modif else modif)
                   else modif)
      in (shl_str (shl_int (shl_str (shl_int (shl_str (shl_int (shl_str os esc_bracket)
            (modif ! 0)) '';'') (modif ! 1)) '';'') (modif ! 2)) ''m'', s))"

definition reset_hpp :: "ostream \<Rightarrow> statics \<Rightarrow> ostream \<times> statics" where
  "reset_hpp os s = (shl_str os (esc_bracket @ ''0m''), s)"

subsection \<open>The wire format of the specification\<close>

text \<open>
  Section 6 of the specification gives the general form of a Select Graphic Rendition
  sequence: \<^verbatim>\<open>ESC [ <params> m\<close>, where the parameters are a semicolon-separated list
  of decimal numbers, possibly empty. The two definitions below follow these words, not
  the source; the theorems compare what the source's functions write with them.
\<close>

fun join_params :: "string list \<Rightarrow> string" where
  "join_params [] = []"
| "join_params [p] = p"
| "join_params (p # q # ps) = p @ '';'' @ join_params (q # ps)"

definition sgr :: "int list \<Rightarrow> string" where
  "sgr params = esc_bracket @ join_params (map show_int params) @ ''m''"

section \<open>Properties\<close>

subsection \<open>Decimal output and the joint colour code\<close>

lemma show_int_numerals:
  "show_int 0 = ''0''" "show_int 1 = ''1''" "show_int 3 = ''3''" "show_int 4 = ''4''"
  "show_int 22 = ''22''" "show_int 23 = ''23''" "show_int 24 = ''24''"
  "show_int 31 = ''31''" "show_int 42 = ''42''"
  by (simp_all add: show_int_def show_nat.simps digit_char_def)

lemma sgr_three:
  "sgr [x, y, z] = esc_bracket @ show_int x @ '';'' @ show_int y @ '';'' @ show_int z @ ''m''"
  by (simp add: sgr_def)

text \<open>The high byte of a joint code of \<^verbatim>\<open>tesc.h\<close> is the foreground, the low byte the background.\<close>

lemma join_h_hi: "drop_bit 8 (join_face_back_h f b) = ucast (face_code f)"
  unfolding join_face_back_h_def
  by (rule bit_word_eqI) (auto simp add: bit_simps dest: bit_imp_le_length)

lemma join_h_lo: "(ucast (join_face_back_h f b) :: 8 word) = back_code b"
  unfolding join_face_back_h_def
  by (rule bit_word_eqI) (auto simp add: bit_simps dest: bit_imp_le_length)

subsection \<open>The colour manipulator\<close>

lemma color_shl_h_sgr:
  "color_shl_h os d =
     os @ sgr (filter (\<lambda>c. c \<noteq> 0)
       [uint (drop_bit 8 (m_color d)), uint (ucast (m_color d) :: 8 word)])"
  by (simp add: color_shl_h_def shl_str_def shl_int_def Let_def sgr_def)

lemma color_shl_hpp_sgr:
  "fst (color_shl_hpp os s) =
     os @ sgr (filter (\<lambda>c. c \<noteq> 0)
       [uint (face_code (fg_color s)), uint (back_code (bg_color s))])"
  by (simp add: color_shl_hpp_def get_face_def get_back_def shl_str_def shl_int_def Let_def
      sgr_def)

lemma color_shl_h_join:
  "color_shl_h os (color_code_h (join_face_back_h (Face f) (Back b))) =
     os @ sgr (filter (\<lambda>c. c \<noteq> 0) [uint f, uint b])"
  by (simp add: color_shl_h_sgr color_code_h_def join_h_hi join_h_lo uint_up_ucast is_up)

lemma color_shl_hpp_pair:
  "fst (color_shl_hpp os (color_pair_hpp (join_face_back_hpp (Face f) (Back b)) s)) =
     os @ sgr (filter (\<lambda>c. c \<noteq> 0) [uint f, uint b])"
  by (simp only: color_shl_hpp_sgr)
    (simp add: color_pair_hpp_def join_face_back_hpp_def)

lemma sgr_nonzero:
  "sgr (filter (\<lambda>c. c \<noteq> 0) [uint f, uint b]) =
     esc_bracket @ (if f \<noteq> 0 then show_int (uint f) else [])
        @ (if f \<noteq> 0 \<and> b \<noteq> 0 then '';'' else [])
        @ (if b \<noteq> 0 then show_int (uint b) else []) @ ''m''"
  by (simp add: sgr_def uint_0_iff)

text \<open>
  Claim C1. For every foreground code \<open>f\<close> and background code \<open>b\<close> held by a colour
  manipulator (the two bytes of \<^verbatim>\<open>_color\<close> in \<^verbatim>\<open>tesc.h\<close>, the two static cells in
  \<^verbatim>\<open>tesc.hpp\<close>), writing it appends the prefix \<^verbatim>\<open>ESC [\<close>, the decimal digits of \<open>f\<close>
  only if \<open>f\<close> is not 0, a semicolon only if both are not 0, the decimal digits of \<open>b\<close>
  only if \<open>b\<close> is not 0, and \<^verbatim>\<open>m\<close>. Said with the wire format: the parameters written
  are exactly the codes among \<open>f\<close>, \<open>b\<close> that are not 0, so a zero code is never
  written. In particular \<^verbatim>\<open>none|none\<close> gives the three bytes \<^verbatim>\<open>ESC[m\<close>, \<^verbatim>\<open>red|none\<close>
  gives \<^verbatim>\<open>ESC[31m\<close>, \<^verbatim>\<open>red|green\<close> gives \<^verbatim>\<open>ESC[31;42m\<close> and \<^verbatim>\<open>none|green\<close> gives
  \<^verbatim>\<open>ESC[42m\<close>, in both files. A manipulator built from \<^verbatim>\<open>red\<close> alone, or from
  \<^verbatim>\<open>green\<close> alone as the background, writes the same as the pair with \<^verbatim>\<open>none\<close> (in
  \<^verbatim>\<open>tesc.hpp\<close>: when the other cell holds \<^verbatim>\<open>none\<close>, as at program start).
\<close>

theorem color_emission:
  "color_shl_h os (color_code_h (join_face_back_h (Face f) (Back b))) =
     os @ esc_bracket @ (if f \<noteq> 0 then show_int (uint f) else [])
        @ (if f \<noteq> 0 \<and> b \<noteq> 0 then '';'' else [])
        @ (if b \<noteq> 0 then show_int (uint b) else []) @ ''m''
   \<and> fst (color_shl_hpp os (color_pair_hpp (join_face_back_hpp (Face f) (Back b)) s)) =
     os @ esc_bracket @ (if f \<noteq> 0 then show_int (uint f) else [])
        @ (if f \<noteq> 0 \<and> b \<noteq> 0 then '';'' else [])
        @ (if b \<noteq> 0 then show_int (uint b) else []) @ ''m''
   \<and> color_shl_h os (color_code_h (join_face_back_h (Face f) (Back b))) =
     os @ sgr (filter (\<lambda>c. c \<noteq> 0) [uint f, uint b])
   \<and> fst (color_shl_hpp os (color_pair_hpp (join_face_back_hpp (Face f) (Back b)) s)) =
     os @ sgr (filter (\<lambda>c. c \<noteq> 0) [uint f, uint b])
   \<and> color_shl_h os d =
     os @ sgr (filter (\<lambda>c. c \<noteq> 0)
       [uint (drop_bit 8 (m_color d)), uint (ucast (m_color d) :: 8 word)])
   \<and> fst (color_shl_hpp os s) =
     os @ sgr (filter (\<lambda>c. c \<noteq> 0)
       [uint (face_code (fg_color s)), uint (back_code (bg_color s))])
   \<and> color_shl_h os (color_code_h (join_face_back_h face_none back_none)) =
     os @ [CHR 0x1B, CHR ''['', CHR ''m'']
   \<and> color_shl_h os (color_code_h (join_face_back_h face_red back_none)) =
     os @ esc_bracket @ ''31m''
   \<and> color_shl_h os (color_code_h (join_face_back_h face_red back_green)) =
     os @ esc_bracket @ ''31;42m''
   \<and> color_shl_h os (color_code_h (join_face_back_h face_none back_green)) =
     os @ esc_bracket @ ''42m''
   \<and> fst (color_shl_hpp os (color_pair_hpp (join_face_back_hpp face_none back_none) s)) =
     os @ [CHR 0x1B, CHR ''['', CHR ''m'']
   \<and> fst (color_shl_hpp os (color_pair_hpp (join_face_back_hpp face_red back_none) s)) =
     os @ esc_bracket @ ''31m''
   \<and> fst (color_shl_hpp os (color_pair_hpp (join_face_back_hpp face_red back_green) s)) =
     os @ esc_bracket @ ''31;42m''
   \<and> fst (color_shl_hpp os (color_pair_hpp (join_face_back_hpp face_none back_green) s)) =
     os @ esc_bracket @ ''42m''
   \<and> color_shl_h os (color_face_h face_red) = os @ esc_bracket @ ''31m''
   \<and> color_shl_h os (color_back_h back_green) = os @ esc_bracket @ ''42m''
   \<and> fst (color_shl_hpp os (color_face_hpp face_red initial)) = os @ esc_bracket @ ''31m''
   \<and> fst (color_shl_hpp os (color_back_hpp back_green initial)) = os @ esc_bracket @ ''42m''"
proof -
  let ?out = "os @ esc_bracket @ (if f \<noteq> 0 then show_int (uint f) else [])
        @ (if f \<noteq> 0 \<and> b \<noteq> 0 then '';'' else [])
        @ (if b \<noteq> 0 then show_int (uint b) else []) @ ''m''"
  have gen: "os @ sgr (filter (\<lambda>c. c \<noteq> 0) [uint f, uint b]) = ?out"
    by (simp only: sgr_nonzero)
  have ex:
    "os @ sgr (filter (\<lambda>c. c \<noteq> 0) [uint (0 :: 8 word), uint (0 :: 8 word)]) =
       os @ [CHR 0x1B, CHR ''['', CHR ''m'']"
    "os @ sgr (filter (\<lambda>c. c \<noteq> 0) [uint (31 :: 8 word), uint (0 :: 8 word)]) =
       os @ esc_bracket @ ''31m''"
    "os @ sgr (filter (\<lambda>c. c \<noteq> 0) [uint (31 :: 8 word), uint (42 :: 8 word)]) =
       os @ esc_bracket @ ''31;42m''"
    "os @ sgr (filter (\<lambda>c. c \<noteq> 0) [uint (0 :: 8 word), uint (42 :: 8 word)]) =
       os @ esc_bracket @ ''42m''"
    by (simp_all add: sgr_def show_int_numerals esc_bracket_def)
  have bare:
    "color_shl_h os (color_face_h (Face 31)) = os @ esc_bracket @ ''31m''"
    "color_shl_h os (color_back_h (Back 42)) = os @ esc_bracket @ ''42m''"
    "fst (color_shl_hpp os (color_face_hpp (Face 31) initial)) = os @ esc_bracket @ ''31m''"
    "fst (color_shl_hpp os (color_back_hpp (Back 42) initial)) = os @ esc_bracket @ ''42m''"
    unfolding color_shl_h_sgr color_shl_hpp_sgr
    by (simp_all add: color_face_h_def color_back_h_def color_face_hpp_def color_back_hpp_def
        initial_def enum_defs sgr_def show_int_numerals)
  show ?thesis
    unfolding face_none_def face_red_def back_none_def back_green_def
      color_shl_h_join color_shl_hpp_pair
    by (intro conjI gen ex bare refl color_shl_h_sgr color_shl_hpp_sgr)
qed

subsection \<open>\<^verbatim>\<open>bright\<close>\<close>

lemma bright_face_low:
  assumes "face_code f \<in> {30..37}"
  shows "bright_face_h f = Inr (Face (face_code f + 60))"
    and "bright_face_hpp f = Face (face_code f + 60)"
    and "uint (face_code f + 60) = uint (face_code f) + 60"
    and "face_code f + 60 \<ge> 90"
  using assms
  by (auto simp add: bright_face_h_def bright_face_hpp_def word_le_def uint_word_ariths)

lemma bright_back_low:
  assumes "back_code b \<in> {40..47}"
  shows "bright_back_h b = Inr (Back (back_code b + 60))"
    and "bright_back_hpp b = Back (back_code b + 60)"
    and "uint (back_code b + 60) = uint (back_code b) + 60"
    and "back_code b + 60 \<ge> 100"
  using assms
  by (auto simp add: bright_back_h_def bright_back_hpp_def word_le_def uint_word_ariths)

text \<open>
  Claim C3. For a standard foreground code \<open>f\<close> (30 to 37) and a standard background
  code \<open>b\<close> (40 to 47), \<^verbatim>\<open>bright\<close> returns the code plus 60 in both files, and the byte
  does not wrap. For a foreground code \<open>f'\<close> of at least 90 and a background code \<open>b'\<close>
  of at least 100, \<^verbatim>\<open>bright\<close> of \<^verbatim>\<open>tesc.h\<close> throws \<^verbatim>\<open>invalid_argument\<close> and \<^verbatim>\<open>bright\<close>
  of \<^verbatim>\<open>tesc.hpp\<close> returns its input; so on all these codes the lenient \<^verbatim>\<open>bright\<close>
  applied twice is the lenient \<^verbatim>\<open>bright\<close> applied once.
\<close>

theorem bright_policy:
  assumes "face_code f \<in> {30..37}" and "back_code b \<in> {40..47}"
    and "face_code f' \<ge> 90" and "back_code b' \<ge> 100"
  shows "bright_face_h f = Inr (Face (face_code f + 60))
       \<and> bright_face_hpp f = Face (face_code f + 60)
       \<and> uint (face_code f + 60) = uint (face_code f) + 60
       \<and> bright_back_h b = Inr (Back (back_code b + 60))
       \<and> bright_back_hpp b = Back (back_code b + 60)
       \<and> uint (back_code b + 60) = uint (back_code b) + 60
       \<and> bright_face_h f' = Inl (invalid_argument ''Foreground color is already brighten'')
       \<and> bright_back_h b' = Inl (invalid_argument ''Background color is already brighten'')
       \<and> bright_face_hpp f' = f'
       \<and> bright_back_hpp b' = b'
       \<and> bright_face_hpp (bright_face_hpp f) = bright_face_hpp f
       \<and> bright_back_hpp (bright_back_hpp b) = bright_back_hpp b
       \<and> bright_face_hpp (bright_face_hpp f') = bright_face_hpp f'
       \<and> bright_back_hpp (bright_back_hpp b') = bright_back_hpp b'"
proof -
  have hi: "bright_face_h f' = Inl (invalid_argument ''Foreground color is already brighten'')"
    "bright_back_h b' = Inl (invalid_argument ''Background color is already brighten'')"
    "bright_face_hpp f' = f'" "bright_back_hpp b' = b'"
    using assms(3,4)
    by (simp_all add: bright_face_h_def bright_back_h_def bright_face_hpp_def bright_back_hpp_def)
  have idem_f: "bright_face_hpp (bright_face_hpp f) = bright_face_hpp f"
    using bright_face_low(4)[OF assms(1)]
    by (simp add: bright_face_low(2)[OF assms(1)]) (simp add: bright_face_hpp_def)
  have idem_b: "bright_back_hpp (bright_back_hpp b) = bright_back_hpp b"
    using bright_back_low(4)[OF assms(2)]
    by (simp add: bright_back_low(2)[OF assms(2)]) (simp add: bright_back_hpp_def)
  show ?thesis
    using bright_face_low(1-3)[OF assms(1)] bright_back_low(1-3)[OF assms(2)] hi idem_f idem_b
    by simp
qed

theorem bright_policy_witness:
  "face_code face_red \<in> {30..37} \<and> back_code back_green \<in> {40..47}
   \<and> face_code (Face 91) \<ge> 90 \<and> back_code (Back 102) \<ge> 100
   \<and> bright_face_h face_red = Inr (Face 91) \<and> bright_face_hpp face_red = Face 91
   \<and> bright_back_h back_green = Inr (Back 102) \<and> bright_back_hpp back_green = Back 102
   \<and> bright_face_h (Face 91) = Inl (invalid_argument ''Foreground color is already brighten'')
   \<and> bright_back_h (Back 102) = Inl (invalid_argument ''Background color is already brighten'')
   \<and> bright_face_hpp (Face 91) = Face 91 \<and> bright_back_hpp (Back 102) = Back 102
   \<and> bright_face_hpp (bright_face_hpp face_red) = bright_face_hpp face_red
   \<and> bright_back_hpp (bright_back_hpp back_green) = bright_back_hpp back_green"
  using bright_policy [of face_red back_green "Face 91" "Back 102"]
  by (simp add: enum_defs)

text \<open>
  Claim C4 says that \<^verbatim>\<open>bright\<close> of the value \<^verbatim>\<open>none\<close> (code 0) fails in \<^verbatim>\<open>tesc.h\<close> and
  returns \<^verbatim>\<open>none\<close> in \<^verbatim>\<open>tesc.hpp\<close>. Neither happens: the only test of both functions is
  the comparison with 90 (or 100), which 0 does not reach.
\<close>

theorem bright_none_counterexample:
  "\<not> isl (bright_face_h face_none) \<and> bright_face_hpp face_none \<noteq> face_none"
  by (simp add: bright_face_h_def bright_face_hpp_def enum_defs)

text \<open>
  Claim C4, amended. For the value \<^verbatim>\<open>none\<close> (code 0), of \<^verbatim>\<open>face\<close> or of \<^verbatim>\<open>back\<close>,
  \<^verbatim>\<open>bright\<close> returns the code 60 in both files: \<^verbatim>\<open>tesc.h\<close> does not throw and
  \<^verbatim>\<open>tesc.hpp\<close> does not return \<^verbatim>\<open>none\<close>.
\<close>

theorem bright_none:
  "bright_face_h face_none = Inr (Face 60) \<and> bright_face_hpp face_none = Face 60
   \<and> bright_back_h back_none = Inr (Back 60) \<and> bright_back_hpp back_none = Back 60"
  by (simp add: bright_face_h_def bright_face_hpp_def bright_back_h_def bright_back_hpp_def
      enum_defs)

subsection \<open>The font manipulator\<close>

lemma and_exp_eq_exp_iff: "n < 8 \<Longrightarrow> ((w :: 8 word) AND 2 ^ n = 2 ^ n) = bit w n"
proof
  assume n: "n < 8" and "w AND 2 ^ n = 2 ^ n"
  then have "w AND 2 ^ n \<noteq> 0" by simp
  then show "bit w n" using and_exp_eq_0_iff_not_bit[of w n] by blast
next
  assume n: "n < 8" and "bit w n"
  then show "w AND 2 ^ n = 2 ^ n"
    by (intro bit_word_eqI) (auto simp add: bit_simps)
qed

text \<open>On the three flags the two predicates agree: each reads one bit of the style.\<close>

lemma test_h_bits:
  "test_h styler style_bold = bit (style_code (m_style styler)) 0"
  "test_h styler style_italic = bit (style_code (m_style styler)) 1"
  "test_h styler style_underline = bit (style_code (m_style styler)) 2"
  using and_exp_eq_0_iff_not_bit[of "style_code (m_style styler)" 0]
    and_exp_eq_0_iff_not_bit[of "style_code (m_style styler)" 1]
    and_exp_eq_0_iff_not_bit[of "style_code (m_style styler)" 2]
  by (simp_all add: test_h_def enum_defs)

lemma test_style_bits:
  "test_style s style_bold = bit (style_code (cur_style s)) 0"
  "test_style s style_italic = bit (style_code (cur_style s)) 1"
  "test_style s style_underline = bit (style_code (cur_style s)) 2"
  using and_exp_eq_exp_iff[of 0 "style_code (cur_style s)"]
    and_exp_eq_exp_iff[of 1 "style_code (cur_style s)"]
    and_exp_eq_exp_iff[of 2 "style_code (cur_style s)"]
  by (simp_all add: test_style_def get_style_def enum_defs)

text \<open>The two compare-and-swap steps, with the chained third, sort the three codes.\<close>

lemma font_shl_h_sgr:
  "font_shl_h os styler =
     os @ sgr (sort [if bit (style_code (m_style styler)) 0 then 1 else 22,
                     if bit (style_code (m_style styler)) 1 then 3 else 23,
                     if bit (style_code (m_style styler)) 2 then 4 else 24])"
  unfolding font_shl_h_def test_h_bits
  by (cases "bit (style_code (m_style styler)) 0"; cases "bit (style_code (m_style styler)) 1";
      cases "bit (style_code (m_style styler)) 2")
    (simp_all add: swap_def sgr_three shl_str_def shl_int_def)

lemma font_shl_hpp_sgr:
  "fst (font_shl_hpp os s) =
     os @ sgr (sort [if bit (style_code (cur_style s)) 0 then 1 else 22,
                     if bit (style_code (cur_style s)) 1 then 3 else 23,
                     if bit (style_code (cur_style s)) 2 then 4 else 24])"
  unfolding font_shl_hpp_def test_style_bits
  by (cases "bit (style_code (cur_style s)) 0"; cases "bit (style_code (cur_style s)) 1";
      cases "bit (style_code (cur_style s)) 2")
    (simp_all add: swap_def sgr_three shl_str_def shl_int_def)

lemma font_codes_ascending:
  "sorted_wrt (<) (sort [if a then 1 else 22, if b then 3 else 23, if c then (4::int) else 24])"
  by (cases a; cases b; cases c) simp_all

text \<open>
  Claim C2. For every style value, writing the font manipulator appends \<^verbatim>\<open>ESC [\<close>, three
  codes separated by semicolons and \<^verbatim>\<open>m\<close>. The codes are one per attribute (bold: 1 if
  bit 0 of the style is set, else 22; italic: 3 if bit 1 is set, else 23; underline: 4 if
  bit 2 is set, else 24), written in strictly ascending order. In particular
  \<^verbatim>\<open>font(normal)\<close> gives \<^verbatim>\<open>ESC[22;23;24m\<close> and \<^verbatim>\<open>font(bold|underline)\<close> gives
  \<^verbatim>\<open>ESC[1;4;23m\<close>, in both files.
\<close>

theorem font_emission:
  "font_shl_h os (font_style_h (Style w)) =
     os @ sgr (sort [if bit w 0 then 1 else 22, if bit w 1 then 3 else 23,
                     if bit w 2 then 4 else 24])
   \<and> fst (font_shl_hpp os (font_style_hpp (Style w) s)) =
     os @ sgr (sort [if bit w 0 then 1 else 22, if bit w 1 then 3 else 23,
                     if bit w 2 then 4 else 24])
   \<and> length (sort [if bit w 0 then 1 else 22, if bit w 1 then 3 else 23,
                     if bit w 2 then (4::int) else 24]) = 3
   \<and> sorted_wrt (<) (sort [if bit w 0 then 1 else 22, if bit w 1 then 3 else 23,
                     if bit w 2 then (4::int) else 24])
   \<and> font_shl_h os (font_style_h style_normal) = os @ esc_bracket @ ''22;23;24m''
   \<and> font_shl_h os (font_style_h (join_style style_bold style_underline)) =
     os @ esc_bracket @ ''1;4;23m''
   \<and> fst (font_shl_hpp os (font_style_hpp style_normal s)) = os @ esc_bracket @ ''22;23;24m''
   \<and> fst (font_shl_hpp os (font_style_hpp (join_style style_bold style_underline) s)) =
     os @ esc_bracket @ ''1;4;23m''"
proof -
  have h: "font_shl_h os (font_style_h (Style v)) =
     os @ sgr (sort [if bit v 0 then 1 else 22, if bit v 1 then 3 else 23,
                     if bit v 2 then 4 else 24])" for v
    by (simp add: font_shl_h_sgr font_style_h_def)
  have hpp: "fst (font_shl_hpp os (font_style_hpp (Style v) s)) =
     os @ sgr (sort [if bit v 0 then 1 else 22, if bit v 1 then 3 else 23,
                     if bit v 2 then 4 else 24])" for v
    by (simp add: font_shl_hpp_sgr font_style_hpp_def)
  have ex: "font_shl_h os (font_style_h style_normal) = os @ esc_bracket @ ''22;23;24m''"
    "font_shl_h os (font_style_h (join_style style_bold style_underline)) =
       os @ esc_bracket @ ''1;4;23m''"
    "fst (font_shl_hpp os (font_style_hpp style_normal s)) = os @ esc_bracket @ ''22;23;24m''"
    "fst (font_shl_hpp os (font_style_hpp (join_style style_bold style_underline) s)) =
       os @ esc_bracket @ ''1;4;23m''"
    unfolding enum_defs join_style_def style.sel h hpp
    by (simp_all add: sgr_three show_int_numerals)
  show ?thesis
    by (intro conjI h hpp ex font_codes_ascending) simp
qed

subsection \<open>The flag test\<close>

text \<open>
  Claim C5. The flag test of the font manipulator, the public \<^verbatim>\<open>font::test_style\<close> of
  \<^verbatim>\<open>tesc.hpp\<close>, is true when the stored style and the queried flag are both zero: testing
  \<^verbatim>\<open>style::normal\<close> against a style cell that holds \<^verbatim>\<open>style::normal\<close> (after
  \<^verbatim>\<open>font(style::normal)\<close>, or at program start) returns true. The private \<^verbatim>\<open>font::_test\<close> of
  \<^verbatim>\<open>tesc.h\<close> is only ever called with the flags bold, italic and underline, so the question
  does not arise there.
\<close>

theorem test_normal:
  "test_style (font_style_hpp style_normal s) style_normal = True
   \<and> test_style initial style_normal = True
   \<and> test_style (s\<lparr>cur_style := Style 0\<rparr>) (Style 0) = True"
  by (simp add: test_style_def font_style_hpp_def get_style_def initial_def enum_defs)

subsection \<open>The joiners\<close>

text \<open>
  Claim C6. For every foreground \<open>f\<close> and background \<open>b\<close>, \<^verbatim>\<open>b | f\<close> equals \<^verbatim>\<open>f | b\<close>, in
  both files: either order gives the joint value with \<open>f\<close> as the foreground part and \<open>b\<close>
  as the background part.
\<close>

theorem join_commutes:
  "join_back_face_h b f = join_face_back_h f b
   \<and> join_back_face_hpp b f = join_face_back_hpp f b
   \<and> drop_bit 8 (join_back_face_h b f) = ucast (face_code f)
   \<and> (ucast (join_back_face_h b f) :: 8 word) = back_code b
   \<and> join_back_face_hpp b f = (f, b)"
  by (simp add: join_back_face_h_def join_back_face_hpp_def join_face_back_hpp_def
      join_h_hi join_h_lo)

subsection \<open>\<^verbatim>\<open>reset\<close>\<close>

text \<open>
  Claim C7. Writing \<^verbatim>\<open>reset\<close> appends exactly the four bytes \<^verbatim>\<open>ESC[0m\<close>, in both files,
  whatever the static cells of \<^verbatim>\<open>tesc.hpp\<close> hold; writing it twice appends the four bytes
  twice.
\<close>

theorem reset_emission:
  "reset_h os = os @ [CHR 0x1B, CHR ''['', CHR ''0'', CHR ''m'']
   \<and> fst (reset_hpp os s) = os @ [CHR 0x1B, CHR ''['', CHR ''0'', CHR ''m'']
   \<and> reset_h os = os @ sgr [0]
   \<and> fst (reset_hpp os s) = os @ sgr [0]
   \<and> fst (reset_hpp os s) = fst (reset_hpp os s')
   \<and> reset_h (reset_h os) = os @ sgr [0] @ sgr [0]
   \<and> fst (reset_hpp (fst (reset_hpp os s)) (snd (reset_hpp os s))) = os @ sgr [0] @ sgr [0]
   \<and> length (sgr [0]) = 4"
  by (simp add: reset_h_def reset_hpp_def shl_str_def esc_bracket_def sgr_def show_int_numerals)

text \<open>
  Claim C8. Writing \<^verbatim>\<open>reset\<close> of \<^verbatim>\<open>tesc.hpp\<close> leaves the three static cells (foreground,
  background, style) as they were; for example after \<^verbatim>\<open>color(red|green)\<close> and
  \<^verbatim>\<open>font(bold)\<close> the cells still hold red, green and bold.
\<close>

theorem reset_frame:
  "snd (reset_hpp os s) = s
   \<and> fg_color (snd (reset_hpp os s)) = fg_color s
   \<and> bg_color (snd (reset_hpp os s)) = bg_color s
   \<and> cur_style (snd (reset_hpp os s)) = cur_style s
   \<and> snd (reset_hpp os (font_style_hpp style_bold (color_pair_hpp (face_red, back_green) initial))) =
       \<lparr>fg_color = face_red, bg_color = back_green, cur_style = style_bold\<rparr>"
  by (simp add: reset_hpp_def font_style_hpp_def color_pair_hpp_def initial_def)

subsection \<open>The constructors of \<^verbatim>\<open>tesc.hpp\<close> and the static cells\<close>

text \<open>
  Claim C9. In \<^verbatim>\<open>tesc.hpp\<close>, constructing a colour manipulator from a foreground value
  sets the foreground cell and leaves the background cell (and the style cell) unchanged;
  constructing it from a background value sets the background cell and leaves the
  foreground cell (and the style cell) unchanged; constructing it from a pair sets both
  colour cells to the components of the pair.
\<close>

theorem color_ctor_frame:
  "fg_color (color_face_hpp f s) = f
   \<and> bg_color (color_face_hpp f s) = bg_color s
   \<and> cur_style (color_face_hpp f s) = cur_style s
   \<and> bg_color (color_back_hpp b s) = b
   \<and> fg_color (color_back_hpp b s) = fg_color s
   \<and> cur_style (color_back_hpp b s) = cur_style s
   \<and> fg_color (color_pair_hpp (f, b) s) = f
   \<and> bg_color (color_pair_hpp (f, b) s) = b
   \<and> cur_style (color_pair_hpp (f, b) s) = cur_style s
   \<and> fg_color (color_pair_hpp (join_face_back_hpp f b) s) = f
   \<and> bg_color (color_pair_hpp (join_face_back_hpp f b) s) = b
   \<and> fg_color (color_pair_hpp (join_back_face_hpp b f) s) = f
   \<and> bg_color (color_pair_hpp (join_back_face_hpp b f) s) = b"
  by (simp add: color_face_hpp_def color_back_hpp_def color_pair_hpp_def
      join_face_back_hpp_def join_back_face_hpp_def)

text \<open>
  Claim C10. In \<^verbatim>\<open>tesc.hpp\<close>, the default constructor of \<^verbatim>\<open>font\<close> leaves the static cells
  unchanged: it does not set the style cell to \<^verbatim>\<open>normal\<close>. Writing a default-constructed
  font therefore writes the codes of the style stored last: \<^verbatim>\<open>ESC[22;23;24m\<close> at program
  start, but \<^verbatim>\<open>ESC[1;23;24m\<close> after a \<^verbatim>\<open>font(bold)\<close> was constructed.
\<close>

theorem font_default_frame:
  "font_default_hpp s = s
   \<and> cur_style (font_default_hpp (font_style_hpp st s)) = st
   \<and> fst (font_shl_hpp os (font_default_hpp s)) =
       os @ sgr (sort [if bit (style_code (cur_style s)) 0 then 1 else 22,
                       if bit (style_code (cur_style s)) 1 then 3 else 23,
                       if bit (style_code (cur_style s)) 2 then 4 else 24])
   \<and> fst (font_shl_hpp os (font_default_hpp (font_style_hpp st s))) =
       fst (font_shl_hpp os (font_style_hpp st s))
   \<and> fst (font_shl_hpp os (font_default_hpp initial)) = os @ esc_bracket @ ''22;23;24m''
   \<and> fst (font_shl_hpp os (font_default_hpp (font_style_hpp style_bold s))) =
       os @ esc_bracket @ ''1;23;24m''
   \<and> fst (font_shl_hpp os (font_default_hpp (font_style_hpp style_bold s))) \<noteq>
       os @ esc_bracket @ ''22;23;24m''"
proof -
  have ex: "fst (font_shl_hpp os initial) = os @ esc_bracket @ ''22;23;24m''"
    "fst (font_shl_hpp os (font_style_hpp style_bold s)) = os @ esc_bracket @ ''1;23;24m''"
    unfolding font_shl_hpp_sgr
    by (simp_all add: initial_def font_style_hpp_def enum_defs sgr_three show_int_numerals)
  have ne: "fst (font_shl_hpp os (font_style_hpp style_bold s)) \<noteq> os @ esc_bracket @ ''22;23;24m''"
    unfolding ex by simp
  show ?thesis
    unfolding font_default_hpp_def
    by (intro conjI refl ex ne font_shl_hpp_sgr) (simp add: font_style_hpp_def)
qed

end
